theory Spec2Isabelle
  imports Complex_Main
begin

section \<open>Countdown Audio Builder: a shallow embedding of countdown_builder.py\<close>

text \<open>
  The embedding follows \<^verbatim>\<open>countdown_builder.py\<close> function by function. The external
  libraries (pydub, gTTS, hashlib, time, pathlib) are represented as follows.
  \<^item> An \<^verbatim>\<open>AudioSegment\<close> is a symbolic term recording the library calls that built it;
    its \<^verbatim>\<open>len()\<close> is a duration in whole milliseconds. The growing track
    \<^verbatim>\<open>combined\<close> is the list of the segments appended with \<^verbatim>\<open>+=\<close>, and its
    length is the sum of theirs (sub-millisecond rounding of resampling is not modelled).
  \<^item> Python floats are idealised as reals; \<^verbatim>\<open>int(x)\<close> truncates toward zero.
  \<^item> The gTTS service, the MD5 digest and the writability of the output files are
    fields of the \<open>world\<close> the code runs in; the cache directory, the sleeps and the
    files written are its mutable part.
  \<^item> Exceptions are values of type \<open>error\<close>; a function that may raise returns
    \<open>(error + 'a) \<times> world\<close>. What can raise is a synthesis request, \<^verbatim>\<open>time.sleep\<close>
    of a negative length, reading a cache file that is not there, and writing an output
    file; the pydub calls on segments are taken to return.
\<close>

subsection \<open>Python helpers\<close>

definition py_int :: "real \<Rightarrow> int" where
  \<comment> \<open>\<^verbatim>\<open>int(x)\<close> on a float: truncation toward zero\<close>
  "py_int x = (if 0 \<le> x then \<lfloor>x\<rfloor> else \<lceil>x\<rceil>)"

definition digit_char :: "nat \<Rightarrow> char" where
  "digit_char d = char_of (48 + d)"

fun str_nat :: "nat \<Rightarrow> string" where
  "str_nat n = (if n < 10 then [digit_char n] else str_nat (n div 10) @ [digit_char (n mod 10)])"

declare str_nat.simps [simp del]

definition str :: "int \<Rightarrow> string" where
  \<comment> \<open>\<^verbatim>\<open>str(i)\<close> on an int\<close>
  "str i = (if i < 0 then CHR ''-'' # str_nat (nat (- i)) else str_nat (nat i))"

fun startswith :: "string \<Rightarrow> string \<Rightarrow> bool" where
  \<comment> \<open>\<^verbatim>\<open>s.startswith(p)\<close>, arguments in the order (p, s)\<close>
  "startswith [] s = True"
| "startswith (p # ps) [] = False"
| "startswith (p # ps) (c # cs) = (p = c \<and> startswith ps cs)"

fun contains :: "string \<Rightarrow> string \<Rightarrow> bool" where
  \<comment> \<open>\<^verbatim>\<open>old in s\<close>, arguments in the order (old, s)\<close>
  "contains old [] = (old = [])"
| "contains old (c # cs) = (startswith old (c # cs) \<or> contains old cs)"

function replace :: "string \<Rightarrow> string \<Rightarrow> string \<Rightarrow> string" where
  \<comment> \<open>\<^verbatim>\<open>s.replace(old, new)\<close> for a non-empty \<open>old\<close>: leftmost non-overlapping occurrences\<close>
  "replace old new [] = []"
| "replace old new (c # cs) =
     (if old \<noteq> [] \<and> startswith old (c # cs)
      then new @ replace old new (drop (length old) (c # cs))
      else c # replace old new cs)"
  by pat_completeness auto
termination
  by (relation "measure (\<lambda>(old, new, s). length s)") auto

subsection \<open>Audio segments\<close>

datatype AudioSegment =
    FromMp3 mp3
    \<comment> \<open>\<^verbatim>\<open>AudioSegment.from_mp3(path)\<close> of a file with the given content\<close>
  | Silent int
    \<comment> \<open>\<^verbatim>\<open>AudioSegment.silent(duration=d)\<close>\<close>
  | Sine int int real
    \<comment> \<open>\<^verbatim>\<open>Sine(freq_hz).to_audio_segment(duration=ms).apply_gain(gain_db)\<close>\<close>
  | Prep AudioSegment int
    \<comment> \<open>normalize, fade in and out by \<open>fade_ms\<close>, mono, \<^verbatim>\<open>TARGET_RATE\<close>\<close>
and mp3 =
    Gtts string string string nat
    \<comment> \<open>the file gTTS saves for (text, lang, tld), holding speech of the given duration\<close>
  | Export AudioSegment
    \<comment> \<open>the file written by \<^verbatim>\<open>seg.export(path, format="mp3")\<close>\<close>

fun len :: "AudioSegment \<Rightarrow> int" and mp3_len :: "mp3 \<Rightarrow> int" where
  \<comment> \<open>\<^verbatim>\<open>len(seg)\<close>, in ms; it is never negative: silence of a negative duration is empty\<close>
  "len (FromMp3 f) = mp3_len f"
| "len (Silent d) = max 0 d"
| "len (Sine freq_hz ms gain_db) = max 0 ms"
| "len (Prep seg fade_ms) = len seg"
| "mp3_len (Gtts text lang' tld' d) = int d"
| "mp3_len (Export seg) = len seg"

definition prep :: "AudioSegment \<Rightarrow> int \<Rightarrow> AudioSegment" where
  "prep seg fade_ms = Prep seg fade_ms"

definition make_beep :: "int \<Rightarrow> int \<Rightarrow> real \<Rightarrow> AudioSegment" where
  "make_beep freq_hz ms gain_db = prep (Sine freq_hz ms gain_db) 12"

subsection \<open>Settings\<close>

record Path =
  parent :: string
  stem :: string
  suffix :: string

definition with_suffix :: "Path \<Rightarrow> string \<Rightarrow> Path" where
  "with_suffix p sfx = p\<lparr>suffix := sfx\<rparr>"

record Settings =
  start :: int
  interval :: real
  long_interval :: real
  every_n :: int
  lang :: string
  tld :: string
  beep_freq :: int
  beep_ms :: int
  beep_gain :: real
  fade_ms :: int
  outfile :: Path
  out_bitrate :: string
  lead_in :: "string option"
  lead_in_gap_ms :: int
  rest_text :: string
  skip_first_rest :: int
  end_with :: "string option"
  mode :: string
  speak_interval :: int
  speak_at :: "int list option"
  minute_text :: string

definition truthy :: "string option \<Rightarrow> bool" where
  \<comment> \<open>Python truth value of an \<^verbatim>\<open>Optional[str]\<close>: neither \<^verbatim>\<open>None\<close> nor empty\<close>
  "truthy x = (case x of None \<Rightarrow> False | Some t \<Rightarrow> t \<noteq> [])"

subsection \<open>Which minutes are spoken\<close>

definition should_speak_minute :: "int \<Rightarrow> Settings \<Rightarrow> bool" where
  "should_speak_minute minute settings =
     (if (case speak_at settings of None \<Rightarrow> False | Some xs \<Rightarrow> xs \<noteq> [])
      then minute \<in> set (the (speak_at settings))
      else if speak_interval settings > 0
      then minute mod speak_interval settings = 0 \<or> minute = 1
      else True)"

text \<open>The decision as the specification words it, over the speak-set as a set.\<close>

definition speak_set_configured :: "Settings \<Rightarrow> bool" where
  "speak_set_configured settings = (speak_at settings \<noteq> None \<and> speak_at settings \<noteq> Some [])"

definition speak_set :: "Settings \<Rightarrow> int set" where
  "speak_set settings = (case speak_at settings of None \<Rightarrow> {} | Some xs \<Rightarrow> set xs)"

definition should_speak_spec :: "int \<Rightarrow> Settings \<Rightarrow> bool" where
  "should_speak_spec m settings =
     (if speak_set_configured settings then m \<in> speak_set settings
      else if speak_interval settings > 0 then (m mod speak_interval settings = 0 \<or> m = 1)
      else True)"

subsection \<open>The world: gTTS, the cache directory, sleeping, output files\<close>

datatype error =
    GttsError
    \<comment> \<open>any exception of \<^verbatim>\<open>tts_to_file\<close> or of decoding its file\<close>
  | RuntimeError string
    \<comment> \<open>\<^verbatim>\<open>RuntimeError(f"TTS failed for '{text}': ...")\<close>\<close>
  | ValueError
    \<comment> \<open>\<^verbatim>\<open>time.sleep\<close> of a negative length\<close>
  | FileNotFoundError
  | OSError

record entry =
  label :: string
  t_start :: int
  t_end :: int

datatype artifact =
    AudioFile "AudioSegment list" string
  | TimelineJson "entry list"

record world =
  md5_hexdigest :: "string \<Rightarrow> string"
  gtts :: "nat \<Rightarrow> string \<Rightarrow> string \<Rightarrow> string \<Rightarrow> nat option"
  requests :: nat
  slept :: "real list"
  tts_cache :: "string \<Rightarrow> mp3 option"
  pydub_ready :: bool
  writable :: "Path \<Rightarrow> bool"
  written :: "(Path \<times> artifact) list"

text \<open>
  \<open>gtts w n text lang' tld'\<close> is the outcome of the \<open>n\<close>-th synthesis request made in
  this world, when it is for \<open>(text, lang', tld')\<close>: \<open>None\<close> when the request (or the
  decoding of what it saved) raises, \<open>Some d\<close> when it saves speech of \<open>d\<close> ms.
  \<open>requests\<close> counts the requests made so far.
\<close>

definition tts_to_file :: "string \<Rightarrow> string \<Rightarrow> string \<Rightarrow> world \<Rightarrow> (error + mp3) \<times> world" where
  "tts_to_file text lang' tld' w =
     (case gtts w (requests w) text lang' tld' of
        None \<Rightarrow> (Inl GttsError, w\<lparr>requests := Suc (requests w)\<rparr>)
      | Some d \<Rightarrow> (Inr (Gtts text lang' tld' d), w\<lparr>requests := Suc (requests w)\<rparr>))"

definition sleep :: "real \<Rightarrow> world \<Rightarrow> (error + unit) \<times> world" where
  "sleep secs w =
     (if secs < 0 then (Inl ValueError, w) else (Inr (), w\<lparr>slept := slept w @ [secs]\<rparr>))"

text \<open>
  The loop \<^verbatim>\<open>for attempt in range(retries)\<close>: the \<open>nat\<close> argument counts the
  iterations that remain, \<open>attempt\<close> is the loop variable.
\<close>

fun retry_loop ::
  "string \<Rightarrow> string \<Rightarrow> string \<Rightarrow> int \<Rightarrow> real \<Rightarrow> nat \<Rightarrow> int \<Rightarrow> world \<Rightarrow> (error + AudioSegment) \<times> world"
where
  "retry_loop text lang' tld' retries delay 0 attempt w = (Inl (RuntimeError text), w)"
| "retry_loop text lang' tld' retries delay (Suc k) attempt w =
     (case tts_to_file text lang' tld' w of
        (Inr f, w1) \<Rightarrow> (Inr (FromMp3 f), w1)
      | (Inl e, w1) \<Rightarrow>
          if attempt < retries - 1
          then (case sleep (delay * real_of_int (attempt + 1)) w1 of
                  (Inl e', w2) \<Rightarrow> (Inl e', w2)
                | (Inr u, w2) \<Rightarrow> retry_loop text lang' tld' retries delay k (attempt + 1) w2)
          else retry_loop text lang' tld' retries delay k (attempt + 1) w1)"

definition tts_with_retry_to_audiosegment ::
  "string \<Rightarrow> string \<Rightarrow> string \<Rightarrow> int \<Rightarrow> real \<Rightarrow> world \<Rightarrow> (error + AudioSegment) \<times> world"
where
  "tts_with_retry_to_audiosegment text lang' tld' retries delay w =
     retry_loop text lang' tld' retries delay (nat retries) 0 w"

definition cache_key :: "world \<Rightarrow> string \<Rightarrow> string \<Rightarrow> string \<Rightarrow> string" where
  \<comment> \<open>\<^verbatim>\<open>hashlib.md5(f"{lang}|{tld}|{text}".encode("utf-8")).hexdigest()\<close>\<close>
  "cache_key w lang' tld' text = md5_hexdigest w (lang' @ ''|'' @ tld' @ ''|'' @ text)"

definition tts_cached ::
  "string \<Rightarrow> string \<Rightarrow> string \<Rightarrow> int \<Rightarrow> real \<Rightarrow> world \<Rightarrow> (error + AudioSegment) \<times> world"
where
  "tts_cached text lang' tld' retries delay w =
     (let key = cache_key w lang' tld' text;
          mp3_path = key @ ''.mp3'';
          stored =
            (if tts_cache w mp3_path = None
             then (case tts_with_retry_to_audiosegment text lang' tld' retries delay w of
                     (Inl e, w1) \<Rightarrow> (Inl e, w1)
                   | (Inr seg, w1) \<Rightarrow>
                       (Inr (), w1\<lparr>tts_cache := (tts_cache w1)(mp3_path \<mapsto> Export seg)\<rparr>))
             else (Inr (), w))
      in case stored of
           (Inl e, w2) \<Rightarrow> (Inl e, w2)
         | (Inr u, w2) \<Rightarrow>
             (case tts_cache w2 mp3_path of
                None \<Rightarrow> (Inl FileNotFoundError, w2)
              | Some f \<Rightarrow> (Inr (FromMp3 f), w2)))"

text \<open>The builders call \<^verbatim>\<open>tts_cached\<close> with its default \<open>retries\<close> and \<open>delay\<close>.\<close>

definition default_retries :: int where
  "default_retries = 3"

definition default_delay :: real where
  "default_delay = 12 / 10"

definition speak :: "string \<Rightarrow> Settings \<Rightarrow> world \<Rightarrow> (error + AudioSegment) \<times> world" where
  \<comment> \<open>\<^verbatim>\<open>prep(tts_cached(text, cache_dir, tmpdir, settings.lang, settings.tld), settings.fade_ms)\<close>\<close>
  "speak text settings w =
     (case tts_cached text (lang settings) (tld settings) default_retries default_delay w of
        (Inl e, w1) \<Rightarrow> (Inl e, w1)
      | (Inr raw, w1) \<Rightarrow> (Inr (prep raw (fade_ms settings)), w1))"

subsection \<open>Assembly\<close>

record assembly =
  combined :: "AudioSegment list"
  timeline :: "entry list"
  t_ms :: int
  skipped_rests :: int

definition initial :: assembly where
  \<comment> \<open>\<^verbatim>\<open>timeline = []; t_ms = 0; skipped_rests = 0; combined = AudioSegment.silent(duration=0)\<close>\<close>
  "initial = \<lparr>combined = [], timeline = [], t_ms = 0, skipped_rests = 0\<rparr>"


definition emit :: "string \<Rightarrow> AudioSegment \<Rightarrow> int \<Rightarrow> assembly \<Rightarrow> assembly" where
  \<comment> \<open>\<^verbatim>\<open>combined += seg; timeline.append({"label": l, "start": t_ms, "end": t_ms + d}); t_ms += d\<close>\<close>
  "emit l seg d st =
     st\<lparr>combined := combined st @ [seg],
        timeline := timeline st @ [\<lparr>label = l, t_start = t_ms st, t_end = t_ms st + d\<rparr>],
        t_ms := t_ms st + d\<rparr>"

definition lead_in_block :: "Settings \<Rightarrow> assembly \<Rightarrow> world \<Rightarrow> (error + assembly) \<times> world" where
  "lead_in_block settings st w =
     (if truthy (lead_in settings)
      then (case speak (the (lead_in settings)) settings w of
              (Inl e, w1) \<Rightarrow> (Inl e, w1)
            | (Inr lead, w1) \<Rightarrow>
                (let st1 = emit (the (lead_in settings)) lead (len lead) st
                 in if lead_in_gap_ms settings > 0
                    then (Inr (emit ''lead_gap'' (Silent (lead_in_gap_ms settings))
                                 (lead_in_gap_ms settings) st1), w1)
                    else (Inr st1, w1)))
      else (Inr st, w))"

definition end_block :: "Settings \<Rightarrow> assembly \<Rightarrow> world \<Rightarrow> (error + assembly) \<times> world" where
  "end_block settings st w =
     (if truthy (end_with settings)
      then (case speak (the (end_with settings)) settings w of
              (Inl e, w1) \<Rightarrow> (Inl e, w1)
            | (Inr end_seg, w1) \<Rightarrow>
                (Inr (emit (the (end_with settings)) end_seg (len end_seg) st), w1))
      else (Inr st, w))"

definition normal_step :: "string \<Rightarrow> string \<Rightarrow> AudioSegment \<Rightarrow> int \<Rightarrow> assembly \<Rightarrow> assembly" where
  \<comment> \<open>the beep and the silence of \<open>gap_ms\<close>, under the two given labels\<close>
  "normal_step beep_label pause_label beep gap_ms st =
     emit pause_label (Silent gap_ms) gap_ms (emit beep_label beep (len beep) st)"

definition numbers_boundary ::
  "Settings \<Rightarrow> AudioSegment \<Rightarrow> AudioSegment \<Rightarrow> int \<Rightarrow> assembly \<Rightarrow> assembly"
where
  "numbers_boundary settings rest_seg beep i st =
     (if every_n settings > 0 \<and> i mod every_n settings = 0
      then (if skipped_rests st < skip_first_rest settings
            then normal_step ''beep_skip_rest'' ''pause_skip_rest'' beep
                   (py_int (interval settings * 1000))
                   (st\<lparr>skipped_rests := skipped_rests st + 1\<rparr>)
            else normal_step ''beep'' ''pause_long'' beep
                   (py_int (long_interval settings * 1000))
                   (emit (rest_text settings) rest_seg (len rest_seg) st))
      else normal_step ''beep'' ''pause'' beep (py_int (interval settings * 1000)) st)"

fun numbers_loop ::
  "Settings \<Rightarrow> AudioSegment \<Rightarrow> AudioSegment \<Rightarrow> nat \<Rightarrow> assembly \<Rightarrow> world \<Rightarrow> (error + assembly) \<times> world"
where
  "numbers_loop settings rest_seg beep 0 st w = (Inr st, w)"
| "numbers_loop settings rest_seg beep (Suc n) st w =
     (case speak (str (int (Suc n))) settings w of
        (Inl e, w1) \<Rightarrow> (Inl e, w1)
      | (Inr spoken, w1) \<Rightarrow>
          (let st1 = emit (str (int (Suc n))) spoken (len spoken) st
           in if int (Suc n) = 1
              then end_block settings st1 w1
              else numbers_loop settings rest_seg beep n
                     (numbers_boundary settings rest_seg beep (int (Suc n)) st1) w1))"

definition build_countdown_audio ::
  "Settings \<Rightarrow> world \<Rightarrow> (error + AudioSegment list \<times> entry list) \<times> world"
where
  "build_countdown_audio settings w =
     (case speak (rest_text settings) settings w of
        (Inl e, w1) \<Rightarrow> (Inl e, w1)
      | (Inr rest_seg, w1) \<Rightarrow>
          (let beep = make_beep (beep_freq settings) (beep_ms settings) (beep_gain settings)
           in case lead_in_block settings initial w1 of
                (Inl e, w2) \<Rightarrow> (Inl e, w2)
              | (Inr st, w2) \<Rightarrow>
                  (case numbers_loop settings rest_seg beep (nat (start settings)) st w2 of
                     (Inl e, w3) \<Rightarrow> (Inl e, w3)
                   | (Inr st', w3) \<Rightarrow> (Inr (combined st', timeline st'), w3))))"

definition minute_label :: "int \<Rightarrow> Settings \<Rightarrow> string" where
  "minute_label i settings =
     (if i = 1
      then (if contains ''minutes'' (minute_text settings)
            then ''1 '' @ replace ''minutes'' ''minute'' (minute_text settings)
            else ''1 '' @ minute_text settings)
      else str i @ '' '' @ minute_text settings)"

definition minute_gap :: "int \<Rightarrow> Settings \<Rightarrow> int" where
  \<comment> \<open>\<^verbatim>\<open>int(60000 if should_speak_minute(i, settings) else settings.interval * 1000)\<close>\<close>
  "minute_gap i settings =
     (if should_speak_minute i settings then 60000 else py_int (interval settings * 1000))"

definition rest_cue :: "Settings \<Rightarrow> AudioSegment option \<Rightarrow> assembly \<Rightarrow> assembly" where
  \<comment> \<open>\<^verbatim>\<open>if rest_seg:\<close> is the truth value of an optional segment: present and of non-zero length\<close>
  "rest_cue settings rest_seg st =
     (case rest_seg of
        None \<Rightarrow> st
      | Some r \<Rightarrow> if len r \<noteq> 0 then emit (rest_text settings) r (len r) st else st)"

definition minutes_boundary ::
  "Settings \<Rightarrow> AudioSegment option \<Rightarrow> AudioSegment \<Rightarrow> int \<Rightarrow> assembly \<Rightarrow> assembly"
where
  "minutes_boundary settings rest_seg beep i st =
     (if every_n settings > 0 \<and> i mod every_n settings = 0
      then (if skipped_rests st < skip_first_rest settings
            then normal_step ''beep_skip_rest'' ''pause_skip_rest'' beep
                   (minute_gap i settings)
                   (st\<lparr>skipped_rests := skipped_rests st + 1\<rparr>)
            else normal_step ''beep'' ''pause_long'' beep
                   (py_int (long_interval settings * 1000))
                   (rest_cue settings rest_seg st))
      else normal_step ''beep'' ''pause'' beep (minute_gap i settings) st)"

definition speak_minute :: "Settings \<Rightarrow> int \<Rightarrow> assembly \<Rightarrow> world \<Rightarrow> (error + assembly) \<times> world" where
  "speak_minute settings i st w =
     (if should_speak_minute i settings
      then (case speak (minute_label i settings) settings w of
              (Inl e, w1) \<Rightarrow> (Inl e, w1)
            | (Inr spoken, w1) \<Rightarrow>
                (Inr (emit (minute_label i settings) spoken (len spoken) st), w1))
      else (Inr st, w))"

fun minutes_loop ::
  "Settings \<Rightarrow> AudioSegment option \<Rightarrow> AudioSegment \<Rightarrow> nat \<Rightarrow> assembly \<Rightarrow> world \<Rightarrow> (error + assembly) \<times> world"
where
  "minutes_loop settings rest_seg beep 0 st w = (Inr st, w)"
| "minutes_loop settings rest_seg beep (Suc n) st w =
     (case speak_minute settings (int (Suc n)) st w of
        (Inl e, w1) \<Rightarrow> (Inl e, w1)
      | (Inr st1, w1) \<Rightarrow>
          if int (Suc n) = 1
          then end_block settings st1 w1
          else minutes_loop settings rest_seg beep n
                 (minutes_boundary settings rest_seg beep (int (Suc n)) st1) w1)"

definition rest_asset :: "Settings \<Rightarrow> world \<Rightarrow> (error + AudioSegment option) \<times> world" where
  \<comment> \<open>\<^verbatim>\<open>rest_seg = prep(tts_cached(settings.rest_text, ...)) if settings.every_n > 0 else None\<close>\<close>
  "rest_asset settings w =
     (if every_n settings > 0
      then (case speak (rest_text settings) settings w of
              (Inl e, w1) \<Rightarrow> (Inl e, w1)
            | (Inr r, w1) \<Rightarrow> (Inr (Some r), w1))
      else (Inr None, w))"

definition build_minutes_countdown ::
  "Settings \<Rightarrow> world \<Rightarrow> (error + AudioSegment list \<times> entry list) \<times> world"
where
  "build_minutes_countdown settings w =
     (case rest_asset settings w of
        (Inl e, w1) \<Rightarrow> (Inl e, w1)
      | (Inr rest_seg, w1) \<Rightarrow>
          (let beep = make_beep (beep_freq settings) (beep_ms settings) (beep_gain settings)
           in case lead_in_block settings initial w1 of
                (Inl e, w2) \<Rightarrow> (Inl e, w2)
              | (Inr st, w2) \<Rightarrow>
                  (case minutes_loop settings rest_seg beep (nat (start settings)) st w2 of
                     (Inl e, w3) \<Rightarrow> (Inl e, w3)
                   | (Inr st', w3) \<Rightarrow> (Inr (combined st', timeline st'), w3))))"

subsection \<open>The command line\<close>

definition default_settings :: Settings where
  \<comment> \<open>what \<^verbatim>\<open>parse_args\<close> returns when no flag is given; a flag replaces its field, and
      no value is checked against a range\<close>
  "default_settings =
     \<lparr>start = 80, interval = 35 / 10, long_interval = 8, every_n = 8,
      lang = ''en'', tld = ''com'', beep_freq = 1000, beep_ms = 300, beep_gain = - 6,
      fade_ms = 12,
      outfile = \<lparr>parent = ''.'', stem = ''countdown_combined'', suffix = ''.mp3''\<rparr>,
      out_bitrate = ''192k'', lead_in = None, lead_in_gap_ms = 1000, rest_text = ''rest'',
      skip_first_rest = 0, end_with = None, mode = ''numbers'', speak_interval = 0,
      speak_at = None, minute_text = ''minutes remaining''\<rparr>"

definition build :: "Settings \<Rightarrow> world \<Rightarrow> (error + AudioSegment list \<times> entry list) \<times> world" where
  \<comment> \<open>the choice of the builder in \<^verbatim>\<open>main\<close>\<close>
  "build settings w =
     (if mode settings = ''minutes''
      then build_minutes_countdown settings w
      else build_countdown_audio settings w)"

definition export_audio ::
  "Settings \<Rightarrow> AudioSegment list \<Rightarrow> world \<Rightarrow> (error + unit) \<times> world"
where
  \<comment> \<open>the WAV round trip and \<^verbatim>\<open>final.export(str(settings.outfile), format="mp3", bitrate=...)\<close>\<close>
  "export_audio settings audio w =
     (if writable w (outfile settings)
      then (Inr (), w\<lparr>written := written w @
              [(outfile settings, AudioFile audio (out_bitrate settings))]\<rparr>)
      else (Inl OSError, w))"

definition save_timeline ::
  "Settings \<Rightarrow> entry list \<Rightarrow> world \<Rightarrow> (error + unit) \<times> world"
where
  "save_timeline settings timeline' w =
     (let timeline_path = with_suffix (outfile settings) ''.json''
      in if writable w timeline_path
         then (Inr (), w\<lparr>written := written w @ [(timeline_path, TimelineJson timeline')]\<rparr>)
         else (Inl OSError, w))"

definition main :: "Settings \<Rightarrow> world \<Rightarrow> (error + int) \<times> world" where
  \<comment> \<open>\<^verbatim>\<open>main\<close> after \<^verbatim>\<open>settings = parse_args(argv)\<close>; the result is the exit status\<close>
  "main settings w =
     (if \<not> pydub_ready w then (Inr 2, w)
      else case build settings w of
             (Inl e, w1) \<Rightarrow> (Inl e, w1)
           | (Inr (audio, timeline'), w1) \<Rightarrow>
               (case export_audio settings audio w1 of
                  (Inl e, w2) \<Rightarrow> (Inl e, w2)
                | (Inr u, w2) \<Rightarrow>
                    (case save_timeline settings timeline' w2 of
                       (Inl e, w3) \<Rightarrow> (Inl e, w3)
                     | (Inr u', w3) \<Rightarrow> (Inr 0, w3))))"

subsection \<open>The desktop front-end's check before it launches the builder\<close>

definition gui_inputs_ok :: "Settings \<Rightarrow> bool" where
  \<comment> \<open>\<^verbatim>\<open>generate_countdown\<close> in countdown_gui.py returns early, with an error box,
      when \<open>start <= 0\<close> or \<open>interval <= 0\<close>\<close>
  "gui_inputs_ok settings = (\<not> start settings \<le> 0 \<and> \<not> interval settings \<le> 0)"

subsection \<open>Example worlds\<close>

definition fresh_world :: world where
  \<comment> \<open>empty cache; every synthesis request succeeds with 500 ms of speech\<close>
  "fresh_world =
     \<lparr>md5_hexdigest = (\<lambda>s. s), gtts = (\<lambda>n text lang' tld'. Some 500), requests = 0,
      slept = [], tts_cache = Map.empty, pydub_ready = True, writable = (\<lambda>p. True),
      written = []\<rparr>"

definition c1_settings :: Settings where
  \<comment> \<open>\<^verbatim>\<open>--start 8 --every-n 4 --skip-first-rest 1\<close>\<close>
  "c1_settings = default_settings\<lparr>start := 8, every_n := 4, skip_first_rest := 1\<rparr>"

subsection \<open>Reading a result\<close>

definition succeeded :: "(error + 'a) \<times> world \<Rightarrow> bool" where
  "succeeded r = (case fst r of Inl e \<Rightarrow> False | Inr x \<Rightarrow> True)"

definition labels_of :: "(error + AudioSegment list \<times> entry list) \<times> world \<Rightarrow> string list" where
  \<comment> \<open>the labels of the timeline a build returned; empty when it raised\<close>
  "labels_of r = (case fst r of Inl e \<Rightarrow> [] | Inr (track, timeline') \<Rightarrow> map label timeline')"

subsection \<open>Timelines that account for the whole track\<close>

fun aligned :: "int \<Rightarrow> AudioSegment list \<Rightarrow> entry list \<Rightarrow> int \<Rightarrow> bool" where
  \<comment> \<open>from offset \<open>t\<close>, each entry spans exactly its segment and starts where the previous
      one ended; the last one ends at \<open>t'\<close>\<close>
  "aligned t [] [] t' = (t' = t)"
| "aligned t (seg # segs) (e # es) t' =
     (t_start e = t \<and> t_end e = t + len seg \<and> aligned (t_end e) segs es t')"
| "aligned t [] (e # es) t' = False"
| "aligned t (seg # segs) [] t' = False"

definition consistent :: "assembly \<Rightarrow> bool" where
  "consistent st = aligned 0 (combined st) (timeline st) (t_ms st)"







subsection \<open>Describing one call of the retry loop\<close>

definition attempt_outcome :: "world \<Rightarrow> string \<Rightarrow> string \<Rightarrow> string \<Rightarrow> nat \<Rightarrow> nat option" where
  \<comment> \<open>what the \<open>j\<close>-th attempt (from 0) of a call started in \<open>w\<close> gets from gTTS\<close>
  "attempt_outcome w text lang' tld' j = gtts w (requests w + j) text lang' tld'"

definition backoff :: "real \<Rightarrow> nat \<Rightarrow> real list" where
  \<comment> \<open>the delays \<open>delay * 1, ..., delay * m\<close>\<close>
  "backoff delay m = map (\<lambda>j. delay * real (Suc j)) [0 ..< m]"

definition flaky_world :: world where
  \<comment> \<open>the first two synthesis requests fail, the later ones succeed\<close>
  "flaky_world = fresh_world\<lparr>gtts := (\<lambda>n text lang' tld'. if n < 2 then None else Some 500)\<rparr>"

definition dead_world :: world where
  \<comment> \<open>every synthesis request fails\<close>
  "dead_world = fresh_world\<lparr>gtts := (\<lambda>n text lang' tld'. None)\<rparr>"

subsection \<open>What synthesis leaves untouched\<close>

definition frame :: "world \<Rightarrow> world \<Rightarrow> bool" where
  \<comment> \<open>the two worlds differ at most in the request counter, the sleeps and the cache\<close>
  "frame w w' =
     (md5_hexdigest w' = md5_hexdigest w \<and> gtts w' = gtts w \<and> pydub_ready w' = pydub_ready w \<and>
      writable w' = writable w \<and> written w' = written w)"

definition later_run :: "world \<Rightarrow> world" where
  \<comment> \<open>a later run over the same cache directory, with the synthesis service down\<close>
  "later_run w = w\<lparr>gtts := (\<lambda>n text lang' tld'. None), requests := 0, slept := []\<rparr>"

subsection \<open>Further example configurations and worlds\<close>

definition no_rest_world :: world where
  \<comment> \<open>synthesis of the text \<open>rest\<close> always fails, any other text succeeds\<close>
  "no_rest_world =
     fresh_world\<lparr>gtts := (\<lambda>n text lang' tld'. if text = ''rest'' then None else Some 500)\<rparr>"

definition c9_numbers :: Settings where
  \<comment> \<open>\<^verbatim>\<open>--start 2 --every-n 0\<close>\<close>
  "c9_numbers = default_settings\<lparr>start := 2, every_n := 0\<rparr>"

definition c9_minutes :: Settings where
  \<comment> \<open>\<^verbatim>\<open>--mode minutes --start 2 --every-n 0\<close>\<close>
  "c9_minutes = default_settings\<lparr>start := 2, every_n := 0, mode := ''minutes''\<rparr>"

definition c7_settings :: Settings where
  \<comment> \<open>\<^verbatim>\<open>--start 1\<close>\<close>
  "c7_settings = default_settings\<lparr>start := 1\<rparr>"

definition c2_zero_start :: Settings where
  \<comment> \<open>\<^verbatim>\<open>--start 0\<close>\<close>
  "c2_zero_start = default_settings\<lparr>start := 0\<rparr>"

definition c2_negative_interval :: Settings where
  \<comment> \<open>\<^verbatim>\<open>--start 2 --every-n 0 --interval -1\<close>\<close>
  "c2_negative_interval = default_settings\<lparr>start := 2, every_n := 0, interval := - 1\<rparr>"

definition late_fail_world :: world where
  \<comment> \<open>synthesis of the text \<open>1\<close> always fails, any other text succeeds\<close>
  "late_fail_world =
     fresh_world\<lparr>gtts := (\<lambda>n text lang' tld'. if text = ''1'' then None else Some 500)\<rparr>"

subsection \<open>Basic facts\<close>

lemma timeline_emit [simp]:
  "timeline (emit l seg d st) =
     timeline st @ [\<lparr>label = l, t_start = t_ms st, t_end = t_ms st + d\<rparr>]"
  by (simp add: emit_def)

lemma combined_emit [simp]: "combined (emit l seg d st) = combined st @ [seg]"
  by (simp add: emit_def)

lemma t_ms_emit [simp]: "t_ms (emit l seg d st) = t_ms st + d"
  by (simp add: emit_def)

lemma skipped_rests_emit [simp]: "skipped_rests (emit l seg d st) = skipped_rests st"
  by (simp add: emit_def)

lemma str_small:
  "str 1 = ''1''" "str 2 = ''2''" "str 3 = ''3''" "str 4 = ''4''"
  "str 5 = ''5''" "str 6 = ''6''" "str 7 = ''7''" "str 8 = ''8''"
  by code_simp+

lemma labels_numbers_boundary:
  "map label (timeline (numbers_boundary s r b i st)) =
     map label (timeline st) @
       (if every_n s > 0 \<and> i mod every_n s = 0
        then (if skipped_rests st < skip_first_rest s
              then [''beep_skip_rest'', ''pause_skip_rest'']
              else [rest_text s, ''beep'', ''pause_long''])
        else [''beep'', ''pause''])"
  by (simp add: numbers_boundary_def normal_step_def)

lemma skipped_rests_numbers_boundary:
  "skipped_rests (numbers_boundary s r b i st) =
     (if every_n s > 0 \<and> i mod every_n s = 0 \<and> skipped_rests st < skip_first_rest s
      then skipped_rests st + 1 else skipped_rests st)"
  by (simp add: numbers_boundary_def normal_step_def)

subsection \<open>Theorems\<close>

text \<open>
  C4. For every minute \<open>m \<ge> 1\<close> and every configuration, the decision computed by
  \<open>should_speak_minute\<close> is the one the specification describes: membership in the
  explicit speak-set when one is configured (non-empty); otherwise, with a positive
  \<open>speak_interval\<close>, \<open>m\<close> is a multiple of it or \<open>m = 1\<close>; otherwise true.
\<close>

theorem should_speak_minute_refines_spec:
  "1 \<le> m \<Longrightarrow> should_speak_minute m settings = should_speak_spec m settings"
  by (cases "speak_at settings")
     (simp_all add: should_speak_minute_def should_speak_spec_def speak_set_configured_def
        speak_set_def)

theorem should_speak_minute_refines_spec_witness:
  "(1::int) \<le> 10 \<and>
   should_speak_minute 10 (default_settings\<lparr>speak_at := Some [30, 15, 10, 5, 1]\<rparr>)
     = should_speak_spec 10 (default_settings\<lparr>speak_at := Some [30, 15, 10, 5, 1]\<rparr>) \<and>
   should_speak_minute 10 (default_settings\<lparr>speak_at := Some [30, 15, 10, 5, 1]\<rparr>)"
  using should_speak_minute_refines_spec
    [of 10 "default_settings\<lparr>speak_at := Some [30, 15, 10, 5, 1]\<rparr>"]
  by (simp add: should_speak_minute_def default_settings_def)

text \<open>
  C1 (as amended). In numbers mode with \<open>start = 8\<close>, \<open>every_n = 4\<close>,
  \<open>skip_first_rest = 1\<close>, no lead-in and no end phrase, every successful build has
  the timeline labels below: the first rest boundary is the one at count 8, which is
  the one replaced by \<open>beep_skip_rest\<close> and \<open>pause_skip_rest\<close>; the next rest boundary,
  at count 4, is a true rest cue (rest speech, \<open>beep\<close>, \<open>pause_long\<close>).
\<close>

theorem numbers_8_4_skip_1_labels:
  assumes "start s = 8" and "every_n s = 4" and "skip_first_rest s = 1"
    and "\<not> truthy (lead_in s)" and "\<not> truthy (end_with s)"
    and "succeeded (build_countdown_audio s w)"
  shows "labels_of (build_countdown_audio s w) =
     [''8'', ''beep_skip_rest'', ''pause_skip_rest'',
      ''7'', ''beep'', ''pause'',
      ''6'', ''beep'', ''pause'',
      ''5'', ''beep'', ''pause'',
      ''4'', rest_text s, ''beep'', ''pause_long'',
      ''3'', ''beep'', ''pause'',
      ''2'', ''beep'', ''pause'',
      ''1'']"
  using assms
  by (auto simp: Let_def succeeded_def labels_of_def build_countdown_audio_def
        lead_in_block_def end_block_def initial_def numeral_eq_Suc
        labels_numbers_boundary skipped_rests_numbers_boundary str_small
        split: prod.splits sum.splits)

theorem numbers_8_4_skip_1_labels_witness:
  "start c1_settings = 8 \<and> every_n c1_settings = 4 \<and> skip_first_rest c1_settings = 1 \<and>
   \<not> truthy (lead_in c1_settings) \<and> \<not> truthy (end_with c1_settings) \<and>
   succeeded (build_countdown_audio c1_settings fresh_world) \<and>
   labels_of (build_countdown_audio c1_settings fresh_world) =
     [''8'', ''beep_skip_rest'', ''pause_skip_rest'',
      ''7'', ''beep'', ''pause'',
      ''6'', ''beep'', ''pause'',
      ''5'', ''beep'', ''pause'',
      ''4'', ''rest'', ''beep'', ''pause_long'',
      ''3'', ''beep'', ''pause'',
      ''2'', ''beep'', ''pause'',
      ''1'']"
proof -
  have cfg: "start c1_settings = 8" "every_n c1_settings = 4" "skip_first_rest c1_settings = 1"
    "\<not> truthy (lead_in c1_settings)" "\<not> truthy (end_with c1_settings)"
    "rest_text c1_settings = ''rest''"
    by (simp_all add: c1_settings_def default_settings_def truthy_def)
  have ok: "succeeded (build_countdown_audio c1_settings fresh_world)"
    by code_simp
  show ?thesis
    using numbers_8_4_skip_1_labels [OF cfg(1-5) ok] cfg ok by simp
qed

text \<open>
  C1 as stated fails: in that configuration the entries that follow the count \<open>4\<close> are
  the rest cue, and the skipped-rest labels follow the count \<open>8\<close>.
\<close>

theorem boundary_at_4_is_rest_counterexample:
  "succeeded (build_countdown_audio c1_settings fresh_world) \<and>
   labels_of (build_countdown_audio c1_settings fresh_world) ! 12 = ''4'' \<and>
   \<not> (take 2 (drop 13 (labels_of (build_countdown_audio c1_settings fresh_world)))
        = [''beep_skip_rest'', ''pause_skip_rest'']) \<and>
   take 3 (drop 13 (labels_of (build_countdown_audio c1_settings fresh_world)))
        = [''rest'', ''beep'', ''pause_long''] \<and>
   take 3 (labels_of (build_countdown_audio c1_settings fresh_world))
        = [''8'', ''beep_skip_rest'', ''pause_skip_rest'']"
  by code_simp

subsection \<open>The timeline invariant\<close>











lemma consistent_skipped [simp]:
  "consistent (st\<lparr>skipped_rests := k\<rparr>) = consistent st"
  by (simp add: consistent_def)















subsection \<open>Gaps in minutes mode\<close>




subsection \<open>The retry loop\<close>

lemma retry_loop_all_fail:
  "\<forall>j<k. gtts w (requests w + j) text lang' tld' = None \<Longrightarrow> 0 \<le> delay \<Longrightarrow> 0 \<le> a \<Longrightarrow>
   a + int k = retries \<Longrightarrow>
   retry_loop text lang' tld' retries delay k a w =
     (Inl (RuntimeError text),
      w\<lparr>requests := requests w + k,
        slept := slept w @ map (\<lambda>j. delay * real_of_int (a + int j + 1)) [0 ..< k - 1]\<rparr>)"
proof (induction k arbitrary: a w)
  case 0
  then show ?case by simp
next
  case (Suc k)
  have none0: "gtts w (requests w) text lang' tld' = None"
    using Suc.prems(1) by force
  show ?case
  proof (cases k)
    case 0
    with Suc.prems none0 show ?thesis
      by (simp add: tts_to_file_def)
  next
    case (Suc k')
    let ?w2 = "w\<lparr>requests := Suc (requests w),
                  slept := slept w @ [delay * real_of_int (a + 1)]\<rparr>"
    have lt: "a < retries - 1"
      using Suc.prems(4) Suc by simp
    have nonneg: "\<not> delay * real_of_int (a + 1) < 0"
      using Suc.prems(2,3) by (simp add: not_less)
    have step: "retry_loop text lang' tld' retries delay (Suc k) a w
                 = retry_loop text lang' tld' retries delay k (a + 1) ?w2"
      using none0 lt nonneg by (simp add: tts_to_file_def sleep_def)
    have rest: "\<forall>j<k. gtts ?w2 (requests ?w2 + j) text lang' tld' = None"
      using Suc.prems(1) by auto
    have "retry_loop text lang' tld' retries delay k (a + 1) ?w2 =
      (Inl (RuntimeError text),
       ?w2\<lparr>requests := requests ?w2 + k,
         slept := slept ?w2 @ map (\<lambda>j. delay * real_of_int (a + 1 + int j + 1)) [0 ..< k - 1]\<rparr>)"
      using Suc.IH [OF rest Suc.prems(2)] Suc.prems(3,4) by simp
    then show ?thesis
      using step Suc by (simp add: map_upt_Suc add.commute add.left_commute del: upt_Suc)
  qed
qed

lemma retry_loop_first_success:
  "m < k \<Longrightarrow> gtts w (requests w + m) text lang' tld' = Some d \<Longrightarrow>
   \<forall>j<m. gtts w (requests w + j) text lang' tld' = None \<Longrightarrow> 0 \<le> delay \<Longrightarrow> 0 \<le> a \<Longrightarrow>
   a + int k = retries \<Longrightarrow>
   retry_loop text lang' tld' retries delay k a w =
     (Inr (FromMp3 (Gtts text lang' tld' d)),
      w\<lparr>requests := requests w + m + 1,
        slept := slept w @ map (\<lambda>j. delay * real_of_int (a + int j + 1)) [0 ..< m]\<rparr>)"
proof (induction k arbitrary: a w m)
  case 0
  then show ?case by simp
next
  case (Suc k)
  show ?case
  proof (cases m)
    case 0
    with Suc.prems show ?thesis
      by (simp add: tts_to_file_def)
  next
    case (Suc m')
    have none0: "gtts w (requests w) text lang' tld' = None"
      using Suc.prems(3) Suc by force
    let ?w2 = "w\<lparr>requests := Suc (requests w),
                  slept := slept w @ [delay * real_of_int (a + 1)]\<rparr>"
    have lt: "a < retries - 1"
      using Suc.prems(1,6) Suc by simp
    have nonneg: "\<not> delay * real_of_int (a + 1) < 0"
      using Suc.prems(4,5) by (simp add: not_less)
    have step: "retry_loop text lang' tld' retries delay (Suc k) a w
                 = retry_loop text lang' tld' retries delay k (a + 1) ?w2"
      using none0 lt nonneg by (simp add: tts_to_file_def sleep_def)
    have some: "gtts ?w2 (requests ?w2 + m') text lang' tld' = Some d"
      using Suc.prems(2) Suc by simp
    have rest: "\<forall>j<m'. gtts ?w2 (requests ?w2 + j) text lang' tld' = None"
      using Suc.prems(3) Suc by auto
    have "retry_loop text lang' tld' retries delay k (a + 1) ?w2 =
      (Inr (FromMp3 (Gtts text lang' tld' d)),
       ?w2\<lparr>requests := requests ?w2 + m' + 1,
         slept := slept ?w2 @ map (\<lambda>j. delay * real_of_int (a + 1 + int j + 1)) [0 ..< m']\<rparr>)"
      using Suc.IH [OF _ some rest Suc.prems(4)] Suc.prems(1,5,6) Suc by simp
    then show ?thesis
      using step Suc by (simp add: map_upt_Suc add.commute add.left_commute del: upt_Suc)
  qed
qed


lemma backoff_sorted: "0 < delay \<Longrightarrow> sorted_wrt (<) (backoff delay m)"
proof -
  assume d: "0 < delay"
  have "sorted_wrt (\<lambda>x y. delay * real (Suc x) < delay * real (Suc y)) [0 ..< m]"
    by (rule sorted_wrt_mono_rel [OF _ sorted_wrt_upt]) (use d in simp)
  then show ?thesis
    by (simp add: backoff_def sorted_wrt_map)
qed

text \<open>
  C6. One call of \<open>tts_with_retry_to_audiosegment\<close> with a positive \<open>delay\<close> makes at
  most \<open>retries\<close> synthesis attempts; between consecutive attempts it sleeps
  \<open>delay * 1\<close>, \<open>delay * 2\<close>, ..., a strictly increasing sequence with one sleep fewer
  than attempts; it raises the fatal \<open>RuntimeError\<close> if and only if every one of the
  \<open>retries\<close> attempts fails; and when some attempt succeeds, it returns the audio of the
  first successful attempt and makes no further attempt.
\<close>

theorem tts_retry_contract:
  assumes "0 < delay"
  shows "requests w \<le> requests (snd (tts_with_retry_to_audiosegment text lang' tld' retries delay w)) \<and>
     requests (snd (tts_with_retry_to_audiosegment text lang' tld' retries delay w)) - requests w
       \<le> nat retries \<and>
     slept (snd (tts_with_retry_to_audiosegment text lang' tld' retries delay w)) =
       slept w @ backoff delay
         (requests (snd (tts_with_retry_to_audiosegment text lang' tld' retries delay w))
            - requests w - 1) \<and>
     sorted_wrt (<) (backoff delay
         (requests (snd (tts_with_retry_to_audiosegment text lang' tld' retries delay w))
            - requests w - 1)) \<and>
     ((\<forall>j<nat retries. attempt_outcome w text lang' tld' j = None) \<longleftrightarrow>
        fst (tts_with_retry_to_audiosegment text lang' tld' retries delay w) = Inl (RuntimeError text)) \<and>
     ((\<forall>j<nat retries. attempt_outcome w text lang' tld' j = None) \<longleftrightarrow>
        isl (fst (tts_with_retry_to_audiosegment text lang' tld' retries delay w))) \<and>
     (\<forall>m<nat retries. \<forall>d.
        attempt_outcome w text lang' tld' m = Some d \<and> (\<forall>j<m. attempt_outcome w text lang' tld' j = None) \<longrightarrow>
        fst (tts_with_retry_to_audiosegment text lang' tld' retries delay w)
          = Inr (FromMp3 (Gtts text lang' tld' d)) \<and>
        requests (snd (tts_with_retry_to_audiosegment text lang' tld' retries delay w))
          = requests w + Suc m)"
proof -
  let ?r = "tts_with_retry_to_audiosegment text lang' tld' retries delay w"
  let ?k = "nat retries"
  have d0: "0 \<le> delay" using assms by simp
  have sorted: "\<And>m. sorted_wrt (<) (backoff delay m)"
    using assms by (rule backoff_sorted)
  show ?thesis
  proof (cases "\<forall>j<?k. attempt_outcome w text lang' tld' j = None")
    case True
    have r: "?r = (Inl (RuntimeError text),
                   w\<lparr>requests := requests w + ?k, slept := slept w @ backoff delay (?k - 1)\<rparr>)"
    proof (cases "0 \<le> retries")
      case True
      then have "0 + int ?k = retries" by simp
      with \<open>\<forall>j<?k. attempt_outcome w text lang' tld' j = None\<close> d0 show ?thesis
        unfolding tts_with_retry_to_audiosegment_def attempt_outcome_def
        using retry_loop_all_fail [of "nat retries" w "text" "lang'" "tld'" delay 0 retries]
        by (simp add: backoff_def)
    next
      case False
      then show ?thesis
        by (simp add: tts_with_retry_to_audiosegment_def backoff_def)
    qed
    have "\<not> (\<exists>m<?k. \<exists>d. attempt_outcome w text lang' tld' m = Some d)"
      using True by simp
    with True r sorted show ?thesis
      by simp
  next
    case False
    then have "\<exists>m. m < ?k \<and> attempt_outcome w text lang' tld' m \<noteq> None" by blast
    then obtain m where m: "m < ?k" "attempt_outcome w text lang' tld' m \<noteq> None"
      and least: "\<forall>j<m. \<not> (j < ?k \<and> attempt_outcome w text lang' tld' j \<noteq> None)"
      using exists_least_iff [of "\<lambda>m. m < ?k \<and> attempt_outcome w text lang' tld' m \<noteq> None"] by blast
    from m(2) obtain d where some: "attempt_outcome w text lang' tld' m = Some d" by blast
    have before: "\<forall>j<m. attempt_outcome w text lang' tld' j = None"
      using least m(1) by auto
    have "0 + int ?k = retries" using m(1) by simp
    then have r: "?r = (Inr (FromMp3 (Gtts text lang' tld' d)),
                   w\<lparr>requests := requests w + m + 1, slept := slept w @ backoff delay m\<rparr>)"
      unfolding tts_with_retry_to_audiosegment_def
      using retry_loop_first_success [of m "nat retries" w "text" "lang'" "tld'" d delay 0 retries] m(1) some before d0
      by (simp add: backoff_def attempt_outcome_def)
    have uniq: "\<And>m' d'. m' < ?k \<Longrightarrow> attempt_outcome w text lang' tld' m' = Some d' \<Longrightarrow>
                 \<forall>j<m'. attempt_outcome w text lang' tld' j = None \<Longrightarrow> m' = m \<and> d' = d"
      using some before by (metis linorder_neqE_nat option.distinct(1) option.inject)
    show ?thesis
      using False r sorted m(1) uniq by auto
  qed
qed

theorem tts_retry_contract_witness:
  "0 < default_delay \<and>
   attempt_outcome flaky_world ''rest'' ''en'' ''com'' 0 = None \<and>
   attempt_outcome flaky_world ''rest'' ''en'' ''com'' 1 = None \<and>
   attempt_outcome flaky_world ''rest'' ''en'' ''com'' 2 = Some 500 \<and>
   fst (tts_with_retry_to_audiosegment ''rest'' ''en'' ''com'' default_retries default_delay
          flaky_world) = Inr (FromMp3 (Gtts ''rest'' ''en'' ''com'' 500)) \<and>
   requests (snd (tts_with_retry_to_audiosegment ''rest'' ''en'' ''com'' default_retries
          default_delay flaky_world)) = 3 \<and>
   slept (snd (tts_with_retry_to_audiosegment ''rest'' ''en'' ''com'' default_retries
          default_delay flaky_world)) = [12 / 10, 24 / 10] \<and>
   attempt_outcome dead_world ''rest'' ''en'' ''com'' 0 = None \<and>
   attempt_outcome dead_world ''rest'' ''en'' ''com'' 1 = None \<and>
   attempt_outcome dead_world ''rest'' ''en'' ''com'' 2 = None \<and>
   fst (tts_with_retry_to_audiosegment ''rest'' ''en'' ''com'' default_retries default_delay
          dead_world) = Inl (RuntimeError ''rest'')"
proof -
  let ?r = "tts_with_retry_to_audiosegment ''rest'' ''en'' ''com'' default_retries default_delay
              flaky_world"
  have d: "0 < default_delay"
    by (simp add: default_delay_def)
  have o: "attempt_outcome flaky_world ''rest'' ''en'' ''com'' 0 = None"
    "attempt_outcome flaky_world ''rest'' ''en'' ''com'' 1 = None"
    "attempt_outcome flaky_world ''rest'' ''en'' ''com'' 2 = Some 500"
    "\<forall>j<2. attempt_outcome flaky_world ''rest'' ''en'' ''com'' j = None"
    by (simp_all add: attempt_outcome_def flaky_world_def fresh_world_def)
  have dead: "\<forall>j<nat default_retries. attempt_outcome dead_world ''rest'' ''en'' ''com'' j = None"
    by (simp add: attempt_outcome_def dead_world_def fresh_world_def)
  note flaky = tts_retry_contract [OF d, of flaky_world "''rest''" "''en''" "''com''" default_retries]
  note all_fail = tts_retry_contract [OF d, of dead_world "''rest''" "''en''" "''com''" default_retries]
  have "(2::nat) < nat default_retries"
    by (simp add: default_retries_def)
  with flaky o(3,4) have res: "fst ?r = Inr (FromMp3 (Gtts ''rest'' ''en'' ''com'' 500))"
    and req: "requests (snd ?r) = requests flaky_world + Suc 2"
    by blast+
  from flaky have "slept (snd ?r) = slept flaky_world @ backoff default_delay
                     (requests (snd ?r) - requests flaky_world - 1)"
    by blast
  with req have sl: "slept (snd ?r) = [12 / 10, 24 / 10]"
    by (simp add: backoff_def flaky_world_def fresh_world_def default_delay_def numeral_eq_Suc)
  have req3: "requests (snd ?r) = 3"
    using req by (simp add: flaky_world_def fresh_world_def)
  from all_fail dead have
    "fst (tts_with_retry_to_audiosegment ''rest'' ''en'' ''com'' default_retries default_delay
            dead_world) = Inl (RuntimeError ''rest'')"
    by blast
  moreover have "attempt_outcome dead_world ''rest'' ''en'' ''com'' 0 = None"
    "attempt_outcome dead_world ''rest'' ''en'' ''com'' 1 = None"
    "attempt_outcome dead_world ''rest'' ''en'' ''com'' 2 = None"
    by (simp_all add: attempt_outcome_def dead_world_def fresh_world_def)
  ultimately show ?thesis
    using d o(1-3) res req3 sl by blast
qed

subsection \<open>The speech cache\<close>

lemma frame_refl [simp]: "frame w w"
  by (simp add: frame_def)

lemma frame_trans: "frame w w1 \<Longrightarrow> frame w1 w2 \<Longrightarrow> frame w w2"
  by (simp add: frame_def)

lemma retry_loop_frame:
  "frame w (snd (retry_loop text lang' tld' retries delay k a w)) \<and>
   tts_cache (snd (retry_loop text lang' tld' retries delay k a w)) = tts_cache w"
  unfolding frame_def
  by (induction k arbitrary: a w) (auto simp: tts_to_file_def sleep_def split: option.splits)

lemma tts_cached_frame:
  "frame w (snd (tts_cached text lang' tld' retries delay w))"
  using retry_loop_frame [of w "text" "lang'" "tld'" retries delay "nat retries" 0]
  by (auto simp: tts_cached_def tts_with_retry_to_audiosegment_def Let_def frame_def
           split: prod.splits sum.splits option.splits)

lemma tts_cached_hit:
  "tts_cache w (cache_key w lang' tld' text @ ''.mp3'') = Some f \<Longrightarrow>
   tts_cached text lang' tld' retries delay w = (Inr (FromMp3 f), w)"
  by (simp add: tts_cached_def Let_def)

lemma tts_cached_stores:
  assumes "fst (tts_cached text lang' tld' retries delay w) = Inr seg"
  shows "\<exists>f. tts_cache (snd (tts_cached text lang' tld' retries delay w))
               (cache_key w lang' tld' text @ ''.mp3'') = Some f \<and> seg = FromMp3 f"
  using assms
  by (auto simp: tts_cached_def Let_def split: prod.splits sum.splits option.splits if_splits)

lemma cache_key_frame: "frame w w' \<Longrightarrow> cache_key w' lang' tld' text = cache_key w lang' tld' text"
  by (simp add: cache_key_def frame_def)

text \<open>
  C8. Once a call of \<open>tts_cached\<close> for \<open>(text, lang, tld)\<close> has returned, its result is
  stored in the cache: a second call for the same triple, in the world the first call
  left (same run) or in any world with the same digest function whose cache holds the
  same file (a later run), returns the same audio, decoded from the same stored file, and
  leaves the world as it is (no synthesis request, no sleep, no write).
\<close>

theorem cached_speech_reused:
  assumes "fst (tts_cached text lang' tld' retries delay w) = Inr seg"
    and "w1 = snd (tts_cached text lang' tld' retries delay w)"
    and "md5_hexdigest w2 = md5_hexdigest w1"
    and "tts_cache w2 (cache_key w1 lang' tld' text @ ''.mp3'')
           = tts_cache w1 (cache_key w1 lang' tld' text @ ''.mp3'')"
  shows "tts_cached text lang' tld' retries' delay' w1 = (Inr seg, w1) \<and>
         tts_cached text lang' tld' retries' delay' w2 = (Inr seg, w2) \<and>
         (\<exists>f. tts_cache w1 (cache_key w1 lang' tld' text @ ''.mp3'') = Some f \<and>
              tts_cache w2 (cache_key w2 lang' tld' text @ ''.mp3'') = Some f \<and>
              seg = FromMp3 f)"
proof -
  have k1: "cache_key w1 lang' tld' text = cache_key w lang' tld' text"
    using tts_cached_frame [of w "text" "lang'" "tld'" retries delay] assms(2)
    by (simp add: cache_key_frame)
  have k2: "cache_key w2 lang' tld' text = cache_key w1 lang' tld' text"
    using assms(3) by (simp add: cache_key_def)
  obtain f where f: "tts_cache w1 (cache_key w1 lang' tld' text @ ''.mp3'') = Some f"
    "seg = FromMp3 f"
    using tts_cached_stores [OF assms(1)] assms(2) k1 by auto
  have f2: "tts_cache w2 (cache_key w2 lang' tld' text @ ''.mp3'') = Some f"
    using f(1) assms(4) k2 by simp
  show ?thesis
    using tts_cached_hit [OF f(1)] tts_cached_hit [OF f2] f f2 by simp
qed

theorem cached_speech_reused_witness:
  "fst (tts_cached ''rest'' ''en'' ''com'' default_retries default_delay fresh_world)
     = Inr (FromMp3 (Export (FromMp3 (Gtts ''rest'' ''en'' ''com'' 500)))) \<and>
   requests (snd (tts_cached ''rest'' ''en'' ''com'' default_retries default_delay fresh_world))
     = 1 \<and>
   tts_cached ''rest'' ''en'' ''com'' default_retries default_delay
       (snd (tts_cached ''rest'' ''en'' ''com'' default_retries default_delay fresh_world))
     = (Inr (FromMp3 (Export (FromMp3 (Gtts ''rest'' ''en'' ''com'' 500)))),
        snd (tts_cached ''rest'' ''en'' ''com'' default_retries default_delay fresh_world)) \<and>
   tts_cached ''rest'' ''en'' ''com'' default_retries default_delay
       (later_run (snd (tts_cached ''rest'' ''en'' ''com'' default_retries default_delay
                          fresh_world)))
     = (Inr (FromMp3 (Export (FromMp3 (Gtts ''rest'' ''en'' ''com'' 500)))),
        later_run (snd (tts_cached ''rest'' ''en'' ''com'' default_retries default_delay
                          fresh_world)))"
proof -
  let ?w1 = "snd (tts_cached ''rest'' ''en'' ''com'' default_retries default_delay fresh_world)"
  have h1: "fst (tts_cached ''rest'' ''en'' ''com'' default_retries default_delay fresh_world)
              = Inr (FromMp3 (Export (FromMp3 (Gtts ''rest'' ''en'' ''com'' 500))))"
    by code_simp
  have h2: "requests ?w1 = 1"
    by code_simp
  have h3: "md5_hexdigest (later_run ?w1) = md5_hexdigest ?w1"
    by (simp add: later_run_def)
  have h4: "tts_cache (later_run ?w1) (cache_key ?w1 ''en'' ''com'' ''rest'' @ ''.mp3'')
              = tts_cache ?w1 (cache_key ?w1 ''en'' ''com'' ''rest'' @ ''.mp3'')"
    by (simp add: later_run_def)
  show ?thesis
    using cached_speech_reused [OF h1 refl h3 h4, of default_retries default_delay] h1 h2
    by simp
qed

text \<open>
  C10. The cache key is the digest of \<open>lang|tld|text\<close> with the fields joined as they
  are, so it is not injective, whatever the digest function: the distinct triples
  (\<open>en\<close>, \<open>com\<close>, \<open>x|y\<close>) and (\<open>en\<close>, \<open>com|x\<close>, \<open>y\<close>) have the same key, and once the
  first has been synthesized and stored, a call for the second returns the audio stored
  for the first, without any synthesis.
\<close>

theorem cache_key_collision:
  "(''en'', ''com'', ''x|y'') \<noteq> (''en'', ''com|x'', ''y'') \<and>
   cache_key w ''en'' ''com'' ''x|y'' = cache_key w ''en'' ''com|x'' ''y'' \<and>
   (fst (tts_cached ''x|y'' ''en'' ''com'' retries delay w) = Inr seg \<longrightarrow>
      tts_cached ''y'' ''en'' ''com|x'' retries' delay'
         (snd (tts_cached ''x|y'' ''en'' ''com'' retries delay w))
        = (Inr seg, snd (tts_cached ''x|y'' ''en'' ''com'' retries delay w)))"
proof (intro conjI impI)
  show "(''en'', ''com'', ''x|y'') \<noteq> (''en'', ''com|x'', ''y'')" by simp
  show same: "cache_key w ''en'' ''com'' ''x|y'' = cache_key w ''en'' ''com|x'' ''y''"
    by (simp add: cache_key_def)
  assume ok: "fst (tts_cached ''x|y'' ''en'' ''com'' retries delay w) = Inr seg"
  let ?w1 = "snd (tts_cached ''x|y'' ''en'' ''com'' retries delay w)"
  have k: "cache_key ?w1 ''en'' ''com|x'' ''y'' = cache_key w ''en'' ''com'' ''x|y''"
    using tts_cached_frame [of w "''x|y''" "''en''" "''com''" retries delay] same
    by (simp add: cache_key_frame)
  obtain f where "tts_cache ?w1 (cache_key w ''en'' ''com'' ''x|y'' @ ''.mp3'') = Some f"
    "seg = FromMp3 f"
    using tts_cached_stores [OF ok] by auto
  then show "tts_cached ''y'' ''en'' ''com|x'' retries' delay' ?w1 = (Inr seg, ?w1)"
    using tts_cached_hit [of ?w1 "''en''" "''com|x''" "''y''" f] k by simp
qed

theorem cache_key_collision_witness:
  "fst (tts_cached ''x|y'' ''en'' ''com'' default_retries default_delay fresh_world)
     = Inr (FromMp3 (Export (FromMp3 (Gtts ''x|y'' ''en'' ''com'' 500)))) \<and>
   tts_cached ''y'' ''en'' ''com|x'' default_retries default_delay
       (snd (tts_cached ''x|y'' ''en'' ''com'' default_retries default_delay fresh_world))
     = (Inr (FromMp3 (Export (FromMp3 (Gtts ''x|y'' ''en'' ''com'' 500)))),
        snd (tts_cached ''x|y'' ''en'' ''com'' default_retries default_delay fresh_world))"
proof -
  have h: "fst (tts_cached ''x|y'' ''en'' ''com'' default_retries default_delay fresh_world)
             = Inr (FromMp3 (Export (FromMp3 (Gtts ''x|y'' ''en'' ''com'' 500))))"
    by code_simp
  show ?thesis
    using cache_key_collision
      [of fresh_world default_retries default_delay
          "FromMp3 (Export (FromMp3 (Gtts ''x|y'' ''en'' ''com'' 500)))"
          default_retries default_delay] h
    by simp
qed

subsection \<open>The rest cue as an asset\<close>

lemma speak_rest_text [simp]: "speak text (s\<lparr>rest_text := r\<rparr>) w = speak text s w"
  by (simp add: speak_def split: prod.splits sum.splits)

lemma should_speak_rest_text [simp]:
  "should_speak_minute i (s\<lparr>rest_text := r\<rparr>) = should_speak_minute i s"
  by (simp add: should_speak_minute_def)

lemma lead_in_block_rest_text [simp]:
  "lead_in_block (s\<lparr>rest_text := r\<rparr>) st w = lead_in_block s st w"
  by (simp add: lead_in_block_def Let_def split: prod.splits sum.splits)

lemma end_block_rest_text [simp]:
  "end_block (s\<lparr>rest_text := r\<rparr>) st w = end_block s st w"
  by (simp add: end_block_def split: prod.splits sum.splits)

lemma minute_label_rest_text [simp]:
  "minute_label i (s\<lparr>rest_text := r\<rparr>) = minute_label i s"
  by (simp add: minute_label_def)

lemma speak_minute_rest_text [simp]:
  "speak_minute (s\<lparr>rest_text := r\<rparr>) i st w = speak_minute s i st w"
  by (simp add: speak_minute_def split: prod.splits sum.splits)

lemma minutes_boundary_rest_text:
  "\<not> every_n s > 0 \<Longrightarrow>
   minutes_boundary (s\<lparr>rest_text := r\<rparr>) rest_seg beep i st = minutes_boundary s rest_seg beep i st"
  by (simp add: minutes_boundary_def minute_gap_def)

lemma minutes_loop_rest_text:
  "\<not> every_n s > 0 \<Longrightarrow>
   minutes_loop (s\<lparr>rest_text := r\<rparr>) rest_seg beep n st w = minutes_loop s rest_seg beep n st w"
  by (induction n arbitrary: st w)
     (auto simp: minutes_boundary_rest_text split: prod.splits sum.splits)

text \<open>
  C9. In numbers mode the rest phrase is synthesized first in every build, whatever
  \<open>every_n\<close> is: when that synthesis fails, the build fails with the same error, also
  with \<open>every_n = 0\<close>, where no rest is ever played. In minutes mode with \<open>every_n = 0\<close>
  the rest phrase is not synthesized and the build does not depend on it.
\<close>

theorem rest_synthesis_numbers_vs_minutes:
  "(fst (speak (rest_text s) s w) = Inl e \<longrightarrow>
      build_countdown_audio s w = (Inl e, snd (speak (rest_text s) s w))) \<and>
   (every_n s = 0 \<longrightarrow>
      rest_asset s w = (Inr None, w) \<and>
      build_minutes_countdown (s\<lparr>rest_text := r\<rparr>) w = build_minutes_countdown s w)"
proof (intro conjI impI)
  assume "fst (speak (rest_text s) s w) = Inl e"
  then show "build_countdown_audio s w = (Inl e, snd (speak (rest_text s) s w))"
    by (cases "speak (rest_text s) s w") (simp add: build_countdown_audio_def)
next
  assume z: "every_n s = 0"
  then show "rest_asset s w = (Inr None, w)"
    by (simp add: rest_asset_def)
  from z have n: "\<not> every_n s > 0" by simp
  show "build_minutes_countdown (s\<lparr>rest_text := r\<rparr>) w = build_minutes_countdown s w"
    using z by (simp add: build_minutes_countdown_def rest_asset_def minutes_loop_rest_text [OF n]
                  split: prod.splits sum.splits)
qed

theorem rest_synthesis_numbers_vs_minutes_witness:
  "every_n c9_numbers = 0 \<and>
   fst (speak (rest_text c9_numbers) c9_numbers no_rest_world) = Inl (RuntimeError ''rest'') \<and>
   fst (build_countdown_audio c9_numbers no_rest_world) = Inl (RuntimeError ''rest'') \<and>
   every_n c9_minutes = 0 \<and>
   rest_asset c9_minutes no_rest_world = (Inr None, no_rest_world) \<and>
   build_minutes_countdown (c9_minutes\<lparr>rest_text := ''pause now''\<rparr>) no_rest_world
     = build_minutes_countdown c9_minutes no_rest_world \<and>
   labels_of (build_minutes_countdown c9_minutes no_rest_world)
     = [''2 minutes remaining'', ''beep'', ''pause'', ''1 minute remaining'']"
proof -
  have z: "every_n c9_numbers = 0" "every_n c9_minutes = 0"
    by (simp_all add: c9_numbers_def c9_minutes_def)
  have f: "fst (speak (rest_text c9_numbers) c9_numbers no_rest_world)
             = Inl (RuntimeError ''rest'')"
    by code_simp
  have m: "labels_of (build_minutes_countdown c9_minutes no_rest_world)
             = [''2 minutes remaining'', ''beep'', ''pause'', ''1 minute remaining'']"
    by code_simp
  show ?thesis
    using rest_synthesis_numbers_vs_minutes
        [of c9_numbers no_rest_world "RuntimeError ''rest''"]
      rest_synthesis_numbers_vs_minutes
        [of c9_minutes no_rest_world _ "''pause now''"] z f m
    by simp
qed

subsection \<open>The run as a whole\<close>

lemma frame_bind:
  assumes "frame w (snd m)" and "\<And>x w1. frame w1 (snd (f x w1))"
  shows "frame w (snd (case m of (Inl e, w1) \<Rightarrow> (Inl e, w1) | (Inr x, w1) \<Rightarrow> f x w1))"
proof (cases m)
  case (Pair r w1)
  show ?thesis
  proof (cases r)
    case (Inl e)
    with Pair assms(1) show ?thesis by simp
  next
    case (Inr x)
    with Pair assms(1) assms(2) [of w1 x] show ?thesis
      by (simp add: frame_trans)
  qed
qed

lemma frame_return: "frame w (snd (Inr x, w))"
  by simp

lemma speak_frame: "frame w (snd (speak text s w))"
  unfolding speak_def
  by (rule frame_bind) (simp_all add: tts_cached_frame)

lemma lead_in_block_frame: "frame w (snd (lead_in_block s st w))"
  unfolding lead_in_block_def
  by (auto intro!: frame_bind speak_frame simp: Let_def)

lemma end_block_frame: "frame w (snd (end_block s st w))"
  unfolding end_block_def
  by simp (intro impI frame_bind speak_frame, simp)

lemma speak_minute_frame: "frame w (snd (speak_minute s i st w))"
  unfolding speak_minute_def
  by simp (intro impI frame_bind speak_frame, simp)

lemma rest_asset_frame: "frame w (snd (rest_asset s w))"
  unfolding rest_asset_def
  by simp (intro impI frame_bind speak_frame, simp)

lemma numbers_loop_frame: "frame w (snd (numbers_loop s r b n st w))"
proof (induction n arbitrary: st w)
  case 0
  then show ?case by simp
next
  case (Suc n)
  show ?case
    unfolding numbers_loop.simps
    by (rule frame_bind) (simp_all add: speak_frame Let_def end_block_frame Suc.IH)
qed

lemma minutes_loop_frame: "frame w (snd (minutes_loop s r b n st w))"
proof (induction n arbitrary: st w)
  case 0
  then show ?case by simp
next
  case (Suc n)
  show ?case
    unfolding minutes_loop.simps
    by (rule frame_bind) (simp_all add: speak_minute_frame end_block_frame Suc.IH)
qed

lemma build_countdown_audio_frame: "frame w (snd (build_countdown_audio s w))"
  unfolding build_countdown_audio_def Let_def
  by (intro frame_bind speak_frame lead_in_block_frame numbers_loop_frame) simp

lemma build_minutes_countdown_frame: "frame w (snd (build_minutes_countdown s w))"
  unfolding build_minutes_countdown_def Let_def
  by (intro frame_bind rest_asset_frame lead_in_block_frame minutes_loop_frame) simp

lemma build_frame: "frame w (snd (build s w))"
  by (simp add: build_def build_countdown_audio_frame build_minutes_countdown_frame)

text \<open>
  C7. The run is all-or-nothing. When the build raises (a synthesis failed for good),
  \<open>main\<close> raises the same error and writes neither the audio file nor the timeline
  sidecar. When \<open>main\<close> returns 0, it has written the audio file and then the sidecar,
  whose path is the output path with the suffix \<open>.json\<close>. In every run the files written
  are none, or the audio alone, or the audio followed by the sidecar: the sidecar is
  never written unless the audio export has succeeded before.
\<close>

theorem main_all_or_nothing:
  "(pydub_ready w \<and> fst (build s w) = Inl e \<longrightarrow>
      fst (main s w) = Inl e \<and> written (snd (main s w)) = written w) \<and>
   (fst (main s w) = Inr 0 \<longrightarrow>
      (\<exists>audio timeline'.
         fst (build s w) = Inr (audio, timeline') \<and>
         writable w (outfile s) \<and>
         written (snd (main s w)) =
           written w @ [(outfile s, AudioFile audio (out_bitrate s)),
                        (with_suffix (outfile s) ''.json'', TimelineJson timeline')])) \<and>
   (written (snd (main s w)) = written w \<or>
    (\<exists>audio timeline'.
       fst (build s w) = Inr (audio, timeline') \<and>
       (written (snd (main s w)) = written w @ [(outfile s, AudioFile audio (out_bitrate s))] \<or>
        written (snd (main s w)) =
          written w @ [(outfile s, AudioFile audio (out_bitrate s)),
                       (with_suffix (outfile s) ''.json'', TimelineJson timeline')])))"
proof -
  obtain res w1 where b: "build s w = (res, w1)"
    by (cases "build s w")
  have f: "written w1 = written w" "writable w1 = writable w"
    using build_frame [of w s] b by (simp_all add: frame_def)
  show ?thesis
  proof (cases res)
    case (Inl e')
    with b f show ?thesis
      by (simp add: main_def)
  next
    case (Inr p)
    obtain audio timeline' where p: "p = (audio, timeline')"
      by (cases p)
    with Inr b f show ?thesis
      by (simp add: main_def export_audio_def save_timeline_def Let_def)
  qed
qed

theorem main_all_or_nothing_witness:
  "pydub_ready late_fail_world \<and>
   fst (build c9_numbers late_fail_world) = Inl (RuntimeError ''1'') \<and>
   fst (main c9_numbers late_fail_world) = Inl (RuntimeError ''1'') \<and>
   written (snd (main c9_numbers late_fail_world)) = [] \<and>
   fst (main c7_settings fresh_world) = Inr 0 \<and>
   written (snd (main c7_settings fresh_world)) =
     [(\<lparr>parent = ''.'', stem = ''countdown_combined'', suffix = ''.mp3''\<rparr>,
       AudioFile [Prep (FromMp3 (Export (FromMp3 (Gtts ''1'' ''en'' ''com'' 500)))) 12] ''192k''),
      (\<lparr>parent = ''.'', stem = ''countdown_combined'', suffix = ''.json''\<rparr>,
       TimelineJson [\<lparr>label = ''1'', t_start = 0, t_end = 500\<rparr>])]"
proof -
  have h1: "pydub_ready late_fail_world \<and>
            fst (build c9_numbers late_fail_world) = Inl (RuntimeError ''1'')"
    by code_simp
  have w0: "written late_fail_world = []" "written fresh_world = []"
    by (simp_all add: late_fail_world_def fresh_world_def)
  have h2: "fst (main c7_settings fresh_world) = Inr 0"
    by code_simp
  have b: "fst (build c7_settings fresh_world) =
             Inr ([Prep (FromMp3 (Export (FromMp3 (Gtts ''1'' ''en'' ''com'' 500)))) 12],
                  [\<lparr>label = ''1'', t_start = 0, t_end = 500\<rparr>])"
    by code_simp
  have p: "outfile c7_settings = \<lparr>parent = ''.'', stem = ''countdown_combined'', suffix = ''.mp3''\<rparr>"
    "with_suffix (outfile c7_settings) ''.json''
       = \<lparr>parent = ''.'', stem = ''countdown_combined'', suffix = ''.json''\<rparr>"
    "out_bitrate c7_settings = ''192k''"
    by (simp_all add: c7_settings_def default_settings_def with_suffix_def)
  show ?thesis
    using main_all_or_nothing [of late_fail_world c9_numbers "RuntimeError ''1''"]
      main_all_or_nothing [of fresh_world c7_settings] h1 h2 w0 b p
    by auto
qed

text \<open>
  C2, evaluated on the code. With \<open>start = 0\<close> nothing is rejected: the rest phrase is
  synthesized (one request), an empty track and an empty timeline are exported, and the
  exit status is 0. With \<open>interval = -1\<close> the build succeeds too, and its \<open>pause\<close>
  entry ends before it starts. The desktop front-end refuses both configurations before
  it launches the builder; the builder and its command line check neither.
\<close>

theorem nonpositive_start_or_interval_is_built:
  "start c2_zero_start \<le> 0 \<and>
   \<not> gui_inputs_ok c2_zero_start \<and>
   fst (main c2_zero_start fresh_world) = Inr 0 \<and>
   requests (snd (main c2_zero_start fresh_world)) = 1 \<and>
   written (snd (main c2_zero_start fresh_world)) =
     [(\<lparr>parent = ''.'', stem = ''countdown_combined'', suffix = ''.mp3''\<rparr>,
       AudioFile [] ''192k''),
      (\<lparr>parent = ''.'', stem = ''countdown_combined'', suffix = ''.json''\<rparr>,
       TimelineJson [])] \<and>
   interval c2_negative_interval \<le> 0 \<and>
   \<not> gui_inputs_ok c2_negative_interval \<and>
   fst (main c2_negative_interval fresh_world) = Inr 0 \<and>
   fst (build c2_negative_interval fresh_world) =
     Inr ([Prep (FromMp3 (Export (FromMp3 (Gtts ''2'' ''en'' ''com'' 500)))) 12,
           Prep (Sine 1000 300 (- 6)) 12,
           Silent (- 1000),
           Prep (FromMp3 (Export (FromMp3 (Gtts ''1'' ''en'' ''com'' 500)))) 12],
          [\<lparr>label = ''2'', t_start = 0, t_end = 500\<rparr>,
           \<lparr>label = ''beep'', t_start = 500, t_end = 800\<rparr>,
           \<lparr>label = ''pause'', t_start = 800, t_end = - 200\<rparr>,
           \<lparr>label = ''1'', t_start = - 200, t_end = 300\<rparr>])"
  by code_simp

end
